theory Spec2Isabelle
  imports Main "HOL-Library.AList" "HOL-Library.Sublist"
begin

section \<open>Python values, exceptions and the built-ins the decoder calls\<close>

text \<open>
  The decoder of \<^verbatim>\<open>mercury/can.py\<close> stores what it reads in the dictionary
  \<^verbatim>\<open>self.data\<close>. The values it stores are Python integers or \<^verbatim>\<open>None\<close>; the
  values it compares them with are the strings \<^verbatim>\<open>"0"\<close>. Python's \<^verbatim>\<open>==\<close> between
  values of different types is \<^verbatim>\<open>False\<close>, which is equality of this datatype.
\<close>

datatype pyval = PyInt int | PyNone | PyStr string

text \<open>The model classes imported from \<^verbatim>\<open>.models\<close>; only their identity matters here.\<close>

datatype sensor =
  TemperatureSensor | AccelerationSensor | WheelSpeedSensor | SuspensionSensor | FuelLevelSensor

text \<open>
  The exceptions that can leave the decoder. \<^verbatim>\<open>InvalidBitException(value, field_name)\<close>
  and \<^verbatim>\<open>MessageLengthException(value)\<close> are the module's own; the others are Python's.
\<close>

datatype error =
    ValueError
  | TypeError
  | KeyError
  | NotImplementedError
  | InvalidBitException pyval string
  | MessageLengthException nat

text \<open>
  The argument of \<^verbatim>\<open>CANDecoder(message)\<close>: a \<^verbatim>\<open>str\<close> or an \<^verbatim>\<open>int\<close>. A character
  is a code point below 256. A \<^verbatim>\<open>bytes\<close> argument is first decoded as UTF-8 into a
  \<^verbatim>\<open>str\<close> and then takes the \<^verbatim>\<open>str\<close> path; the model starts after that decoding.
\<close>

datatype raw_message = MsgStr string | MsgInt int

subsection \<open>\<^verbatim>\<open>int(s, base)\<close> for the bases 2 and 10\<close>

text \<open>
  \<^verbatim>\<open>int\<close> skips white space at both ends, takes an optional sign, for base 2 an
  optional \<^verbatim>\<open>0b\<close> prefix (which may be followed by one underscore), and then wants at
  least one digit; single underscores may separate digits. Anything else raises
  \<^verbatim>\<open>ValueError\<close>, which is \<open>None\<close> here.
\<close>

definition is_space :: "char \<Rightarrow> bool" where
  "is_space c \<longleftrightarrow>
     c = CHR 0x09 \<or> c = CHR 0x0A \<or> c = CHR 0x0B \<or> c = CHR 0x0C \<or> c = CHR 0x0D \<or>
     c = CHR 0x20 \<or> c = CHR 0x85 \<or> c = CHR 0xA0"

definition strip :: "string \<Rightarrow> string" where
  "strip s = rev (dropWhile is_space (rev (dropWhile is_space s)))"

text \<open>Letters are digits of value 10 and more, so no digit of a base up to 10.\<close>

definition digit_val :: "char \<Rightarrow> nat option" where
  "digit_val =
     map_of [(CHR ''0'', 0), (CHR ''1'', 1), (CHR ''2'', 2), (CHR ''3'', 3), (CHR ''4'', 4),
             (CHR ''5'', 5), (CHR ''6'', 6), (CHR ''7'', 7), (CHR ''8'', 8), (CHR ''9'', 9)]"

definition digit_in :: "nat \<Rightarrow> char \<Rightarrow> nat option" where
  "digit_in b c = (case digit_val c of None \<Rightarrow> None | Some v \<Rightarrow> if v < b then Some v else None)"

fun digits_of :: "nat \<Rightarrow> string \<Rightarrow> nat list option" where
  "digits_of b [] = None"
| "digits_of b [c] = map_option (\<lambda>v. [v]) (digit_in b c)"
| "digits_of b (c # u # cs) =
     (case digit_in b c of
        None \<Rightarrow> None
      | Some v \<Rightarrow>
          map_option (\<lambda>vs. v # vs) (if u = CHR ''_'' then digits_of b cs else digits_of b (u # cs)))"

definition from_digits :: "nat \<Rightarrow> nat list \<Rightarrow> nat" where
  "from_digits b vs = foldl (\<lambda>a v. b * a + v) 0 vs"

definition strip_0b :: "string \<Rightarrow> string" where
  "strip_0b u =
     (case u of
        z # x # r \<Rightarrow>
          if z = CHR ''0'' \<and> (x = CHR ''b'' \<or> x = CHR ''B'')
          then (case r of [] \<Rightarrow> r | y # r' \<Rightarrow> if y = CHR ''_'' then r' else r)
          else u
      | _ \<Rightarrow> u)"

definition int_base :: "nat \<Rightarrow> string \<Rightarrow> int option" where
  "int_base b s =
     (let t = strip s;
          neg = (case t of [] \<Rightarrow> False | c # _ \<Rightarrow> c = CHR ''-'');
          u = (case t of [] \<Rightarrow> t | c # r \<Rightarrow> if c = CHR ''+'' \<or> c = CHR ''-'' then r else t);
          w = (if b = 2 then strip_0b u else u)
      in map_option (\<lambda>vs. if neg then - int (from_digits b vs) else int (from_digits b vs))
           (digits_of b w))"

subsection \<open>\<^verbatim>\<open>bin(i)\<close>\<close>

fun bin_digits :: "nat \<Rightarrow> string" where
  "bin_digits n =
     (if n < 2 then [if n = 0 then CHR ''0'' else CHR ''1'']
      else bin_digits (n div 2) @ [if n mod 2 = 0 then CHR ''0'' else CHR ''1''])"

declare bin_digits.simps [simp del]

definition bin :: "int \<Rightarrow> string" where
  "bin i = (if i < 0 then ''-0b'' @ bin_digits (nat (- i)) else ''0b'' @ bin_digits (nat i))"

subsection \<open>Slices \<^verbatim>\<open>s[0:n]\<close> and \<^verbatim>\<open>s[n:]\<close>\<close>

text \<open>A negative bound counts from the end, and every bound is clamped to the string.\<close>

definition slice_to :: "int \<Rightarrow> 'a list \<Rightarrow> 'a list" where
  "slice_to n s = (if 0 \<le> n then take (nat n) s else take (length s - nat (- n)) s)"

definition slice_from :: "int \<Rightarrow> 'a list \<Rightarrow> 'a list" where
  "slice_from n s = (if 0 \<le> n then drop (nat n) s else drop (length s - nat (- n)) s)"

section \<open>The decoder object\<close>

text \<open>
  \<^verbatim>\<open>self.message\<close> and \<^verbatim>\<open>self.data\<close>. The dictionary is an association list in
  insertion order; \<^verbatim>\<open>self.data[k] = v\<close> is \<^const>\<open>AList.update\<close>, which replaces the
  value of a key in place and appends a new key at the end, as a Python \<^verbatim>\<open>dict\<close> does.
\<close>

type_synonym dict = "(string \<times> pyval) list"

record decoder =
  message :: string
  data :: dict

text \<open>
  A method either returns a value or raises, and in both cases leaves the object in
  some state: what it assigned before raising stays assigned.
\<close>

type_synonym 'a action = "decoder \<Rightarrow> (error + 'a) \<times> decoder"

definition return :: "'a \<Rightarrow> 'a action" where
  "return x = (\<lambda>d. (Inr x, d))"

definition raise :: "error \<Rightarrow> 'a action" where
  "raise e = (\<lambda>d. (Inl e, d))"

definition bind :: "'a action \<Rightarrow> ('a \<Rightarrow> 'b action) \<Rightarrow> 'b action" where
  "bind m f = (\<lambda>d. case m d of (Inl e, d') \<Rightarrow> (Inl e, d') | (Inr x, d') \<Rightarrow> f x d')"

definition set_data :: "string \<Rightarrow> pyval \<Rightarrow> unit action" where
  "set_data k v = (\<lambda>d. (Inr (), d\<lparr>data := AList.update k v (data d)\<rparr>))"

definition ID_TO_SENSOR_MAP :: "int \<rightharpoonup> sensor" where
  "ID_TO_SENSOR_MAP =
     [1 \<mapsto> TemperatureSensor, 2 \<mapsto> AccelerationSensor, 3 \<mapsto> WheelSpeedSensor,
      4 \<mapsto> SuspensionSensor, 5 \<mapsto> FuelLevelSensor]"

text \<open>
  \<^verbatim>\<open>CANDecoder.__init__\<close>: a string is parsed in base 2 and, when that raises, in
  base 10 (whose \<^verbatim>\<open>ValueError\<close> propagates); an integer is taken as it is. The message
  becomes \<^verbatim>\<open>bin\<close> of the number, and its length, prefix included, is compared with 130.
\<close>

definition CANDecoder_init :: "raw_message \<Rightarrow> error + decoder" where
  "CANDecoder_init m =
     (case (case m of
              MsgStr s \<Rightarrow>
                (case int_base 2 s of
                   Some i \<Rightarrow> Inr (bin i)
                 | None \<Rightarrow> (case int_base 10 s of Some i \<Rightarrow> Inr (bin i) | None \<Rightarrow> Inl ValueError))
            | MsgInt i \<Rightarrow> Inr (bin i)) of
        Inl e \<Rightarrow> Inl e
      | Inr msg \<Rightarrow>
          if length msg > 130 then Inl (MessageLengthException (length msg))
          else Inr \<lparr>message = msg, data = []\<rparr>)"

text \<open>\<^verbatim>\<open>read_bits\<close>: the two slices, with no check of how many characters are left.\<close>

definition read_bits :: "int \<Rightarrow> string action" where
  "read_bits num_bits =
     (\<lambda>d. (Inr (slice_to num_bits (message d)),
            d\<lparr>message := slice_from num_bits (message d)\<rparr>))"

text \<open>
  \<^verbatim>\<open>read_bits_as_int\<close>: when \<^verbatim>\<open>num_bits > 0\<close> the bits are read and parsed in base 2;
  otherwise the body falls off its end and the call returns \<^verbatim>\<open>None\<close>.
\<close>

definition read_bits_as_int :: "int \<Rightarrow> pyval action" where
  "read_bits_as_int num_bits =
     (if num_bits > 0
      then bind (read_bits num_bits) (\<lambda>bits.
             case int_base 2 bits of None \<Rightarrow> raise ValueError | Some i \<Rightarrow> return (PyInt i))
      else return PyNone)"

text \<open>\<^verbatim>\<open>x * 8\<close> and \<^verbatim>\<open>int(x)\<close> on a stored value; both raise \<^verbatim>\<open>TypeError\<close> on \<^verbatim>\<open>None\<close>.\<close>

definition as_int :: "pyval \<Rightarrow> int action" where
  "as_int v =
     (case v of
        PyInt i \<Rightarrow> return i
      | PyNone \<Rightarrow> raise TypeError
      | PyStr s \<Rightarrow> (case int_base 10 s of None \<Rightarrow> raise ValueError | Some i \<Rightarrow> return i))"

definition times8 :: "pyval \<Rightarrow> int action" where
  "times8 v = (case v of PyInt i \<Rightarrow> return (i * 8) | _ \<Rightarrow> raise TypeError)"

text \<open>
  \<^verbatim>\<open>ID_TO_SENSOR_MAP[can_id]\<close> inside \<^verbatim>\<open>try ... except KeyError: raise NotImplementedError()\<close>.
  The identifier is only logged; the exception carries nothing.
\<close>

definition lookup_sensor :: "pyval \<Rightarrow> sensor action" where
  "lookup_sensor can_id =
     (case (case can_id of PyInt i \<Rightarrow> ID_TO_SENSOR_MAP i | _ \<Rightarrow> None) of
        None \<Rightarrow> raise NotImplementedError
      | Some s \<Rightarrow> return s)"

text \<open>\<^verbatim>\<open>if v == "0": raise InvalidBitException(v, field_name)\<close>\<close>

definition check_bit :: "pyval \<Rightarrow> string \<Rightarrow> unit action" where
  "check_bit v field_name =
     (if v = PyStr ''0'' then raise (InvalidBitException v field_name) else return ())"

text \<open>\<^verbatim>\<open>_decode_can_message\<close>, statement by statement.\<close>

definition priv_decode_can_message :: "(sensor \<times> dict) action" where
  "priv_decode_can_message =
     bind (\<lambda>d. (Inr (), d\<lparr>message := slice_from 2 (message d)\<rparr>)) (\<lambda>_.
     bind (read_bits_as_int 1) (\<lambda>sof.
     bind (set_data ''sof'' sof) (\<lambda>_.
     bind (check_bit sof ''Start of Frame'') (\<lambda>_.
     bind (read_bits_as_int 11) (\<lambda>can_id.
     bind (set_data ''can_id'' can_id) (\<lambda>_.
     bind (lookup_sensor can_id) (\<lambda>sensor_type.
     bind (read_bits_as_int 1) (\<lambda>rtr.
     bind (set_data ''rtr'' rtr) (\<lambda>_.
     bind (read_bits_as_int 1) (\<lambda>ide.
     bind (set_data ''ide'' ide) (\<lambda>_.
     bind (as_int ide) (\<lambda>ide_int.
     bind (if ide_int = 1
           then bind (set_data ''srr'' rtr) (\<lambda>_.
                bind (read_bits_as_int 18) (\<lambda>ext.
                bind (set_data ''extended_can_id'' ext) (\<lambda>_.
                bind (read_bits_as_int 1) (\<lambda>rtr2.
                set_data ''rtr'' rtr2))))
           else bind (set_data ''srr'' PyNone) (\<lambda>_.
                set_data ''extended_can_id'' PyNone)) (\<lambda>_.
     bind (read_bits_as_int 1) (\<lambda>r0.
     bind (set_data ''r0'' r0) (\<lambda>_.
     bind (read_bits_as_int 4) (\<lambda>dlc.
     bind (set_data ''data_length_code'' dlc) (\<lambda>_.
     bind (times8 dlc) (\<lambda>n.
     bind (read_bits_as_int n) (\<lambda>payload.
     bind (set_data ''data'' payload) (\<lambda>_.
     bind (read_bits_as_int 15) (\<lambda>crc.
     bind (set_data ''crc_segment'' crc) (\<lambda>_.
     bind (read_bits_as_int 1) (\<lambda>crc_delimiter.
     bind (set_data ''crc_delimiter'' crc_delimiter) (\<lambda>_.
     bind (check_bit crc_delimiter ''CRC Delimiter'') (\<lambda>_.
     bind (read_bits_as_int 1) (\<lambda>ack_bit.
     bind (set_data ''ack_bit'' ack_bit) (\<lambda>_.
     bind (read_bits_as_int 1) (\<lambda>ack_delimiter.
     bind (set_data ''ack_delimiter'' ack_delimiter) (\<lambda>_.
     bind (check_bit ack_delimiter ''ACK Delimiter'') (\<lambda>_.
     bind (read_bits_as_int 7) (\<lambda>eof.
     bind (set_data ''end_of_frame'' eof) (\<lambda>_.
     bind (read_bits_as_int 3) (\<lambda>ifs.
     bind (set_data ''interframe_space'' ifs) (\<lambda>_.
     (\<lambda>d. (Inr (sensor_type, data d), d))))))))))))))))))))))))))))))))))))"

text \<open>\<^verbatim>\<open>decode_can_message_full_dict\<close>\<close>

definition decode_can_message_full_dict :: "(sensor \<times> dict) action" where
  "decode_can_message_full_dict = priv_decode_can_message"

text \<open>
  \<^verbatim>\<open>decode_can_message\<close>: a dictionary is true when it is not empty, and
  \<^verbatim>\<open>data["data"]\<close> raises \<^verbatim>\<open>KeyError\<close> on a missing key.
\<close>

definition decode_can_message :: "(sensor option \<times> pyval) action" where
  "decode_can_message =
     bind priv_decode_can_message (\<lambda>(sensor_type, dt).
       if dt \<noteq> []
       then (case map_of dt ''data'' of
               None \<Rightarrow> raise KeyError
             | Some v \<Rightarrow> return (Some sensor_type, v))
       else return (None, PyNone))"

text \<open>
  What a caller does with one message: \<^verbatim>\<open>CANDecoder(message).decode_can_message()\<close> and
  \<^verbatim>\<open>CANDecoder(message).decode_can_message_full_dict()\<close>. The object is dropped, so only
  the value or the exception is left.
\<close>

definition decode :: "raw_message \<Rightarrow> error + (sensor option \<times> pyval)" where
  "decode m = (case CANDecoder_init m of Inl e \<Rightarrow> Inl e | Inr d \<Rightarrow> fst (decode_can_message d))"

definition decode_full :: "raw_message \<Rightarrow> error + (sensor \<times> dict)" where
  "decode_full m =
     (case CANDecoder_init m of Inl e \<Rightarrow> Inl e | Inr d \<Rightarrow> fst (decode_can_message_full_dict d))"

section \<open>Bit strings\<close>

text \<open>
  A bit string is a string of the characters \<^verbatim>\<open>0\<close> and \<^verbatim>\<open>1\<close>; \<open>bval\<close> is the number
  it denotes, most significant bit first, and \<open>to_bits w v\<close> writes \<open>v\<close> in exactly
  \<open>w\<close> bits.
\<close>

definition bit_char :: "nat \<Rightarrow> char" where
  "bit_char v = (if v mod 2 = 0 then CHR ''0'' else CHR ''1'')"

definition bit_val :: "char \<Rightarrow> nat" where
  "bit_val c = (if c = CHR ''1'' then 1 else 0)"

definition binary :: "string \<Rightarrow> bool" where
  "binary s = list_all (\<lambda>c. c = CHR ''0'' \<or> c = CHR ''1'') s"

definition bval :: "string \<Rightarrow> nat" where
  "bval s = foldl (\<lambda>a c. 2 * a + bit_val c) 0 s"

fun to_bits :: "nat \<Rightarrow> nat \<Rightarrow> string" where
  "to_bits 0 v = []"
| "to_bits (Suc w) v = to_bits w (v div 2) @ [bit_char v]"

text \<open>
  A decimal string is a string of the characters \<^verbatim>\<open>0\<close> to \<^verbatim>\<open>9\<close>; \<open>dval\<close> is the number
  it denotes.
\<close>

definition decimal :: "string \<Rightarrow> bool" where
  "decimal s = list_all (\<lambda>c. c \<in> set ''0123456789'') s"



text \<open>Successive calls of \<^verbatim>\<open>read_bits\<close> with the given counts, and what each returned.\<close>

fun read_all :: "nat list \<Rightarrow> decoder \<Rightarrow> string list" where
  "read_all [] d = []"
| "read_all (n # ns) d =
     (case read_bits (int n) d of
        (Inr bits, d') \<Rightarrow> bits # read_all ns d'
      | (Inl e, d') \<Rightarrow> [])"

section \<open>A frame laid out by hand\<close>

text \<open>
  The frame of the specification's field table, with the wire width of each field.
  The two fields of an extended frame, \<open>substitute_remote_request\<close> (which sits in
  the slot of the first RTR bit) and \<open>extended_id_extension\<close>, are present exactly
  when \<open>ide = 1\<close>; \<open>remote_transmission_request\<close> is then the bit after the
  extension. There is no encoder in \<^verbatim>\<open>mercury/can.py\<close>: \<open>encode_frame\<close> is the layout
  the specification describes, written down to state round trips against the decoder.
\<close>

record frame =
  start_of_frame :: nat
  arbitration_id :: nat
  remote_transmission_request :: nat
  extension :: "(nat \<times> nat) option"
  reserved_bit :: nat
  data_length_code :: nat
  payload :: nat
  crc :: nat
  crc_delimiter :: nat
  ack_slot :: nat
  ack_delimiter :: nat
  end_of_frame :: nat
  interframe_space :: nat

definition encode_frame :: "frame \<Rightarrow> string" where
  "encode_frame f =
     to_bits 1 (start_of_frame f) @ to_bits 11 (arbitration_id f) @
     (case extension f of
        None \<Rightarrow> to_bits 1 (remote_transmission_request f) @ to_bits 1 0
      | Some (srr, ext) \<Rightarrow>
          to_bits 1 srr @ to_bits 1 1 @ to_bits 18 ext @
          to_bits 1 (remote_transmission_request f)) @
     to_bits 1 (reserved_bit f) @ to_bits 4 (data_length_code f) @
     to_bits (8 * data_length_code f) (payload f) @ to_bits 15 (crc f) @
     to_bits 1 (crc_delimiter f) @ to_bits 1 (ack_slot f) @ to_bits 1 (ack_delimiter f) @
     to_bits 7 (end_of_frame f) @ to_bits 3 (interframe_space f)"

text \<open>The dictionary that holds exactly the field values of a frame.\<close>

definition frame_dict :: "frame \<Rightarrow> dict" where
  "frame_dict f =
     [(''sof'', PyInt (int (start_of_frame f))),
      (''can_id'', PyInt (int (arbitration_id f))),
      (''rtr'', PyInt (int (remote_transmission_request f))),
      (''ide'', PyInt (case extension f of None \<Rightarrow> 0 | Some _ \<Rightarrow> 1)),
      (''srr'', case extension f of None \<Rightarrow> PyNone | Some (srr, ext) \<Rightarrow> PyInt (int srr)),
      (''extended_can_id'',
         case extension f of None \<Rightarrow> PyNone | Some (srr, ext) \<Rightarrow> PyInt (int ext)),
      (''r0'', PyInt (int (reserved_bit f))),
      (''data_length_code'', PyInt (int (data_length_code f))),
      (''data'', PyInt (int (payload f))),
      (''crc_segment'', PyInt (int (crc f))),
      (''crc_delimiter'', PyInt (int (crc_delimiter f))),
      (''ack_bit'', PyInt (int (ack_slot f))),
      (''ack_delimiter'', PyInt (int (ack_delimiter f))),
      (''end_of_frame'', PyInt (int (end_of_frame f))),
      (''interframe_space'', PyInt (int (interframe_space f)))]"

text \<open>Every field fits its width.\<close>

definition fits :: "frame \<Rightarrow> bool" where
  "fits f \<longleftrightarrow>
     start_of_frame f < 2 \<and> arbitration_id f < 2 ^ 11 \<and> remote_transmission_request f < 2 \<and>
     (case extension f of None \<Rightarrow> True | Some (srr, ext) \<Rightarrow> srr < 2 \<and> ext < 2 ^ 18) \<and>
     reserved_bit f < 2 \<and> data_length_code f < 2 ^ 4 \<and>
     payload f < 2 ^ (8 * data_length_code f) \<and> crc f < 2 ^ 15 \<and> crc_delimiter f < 2 \<and>
     ack_slot f < 2 \<and> ack_delimiter f < 2 \<and> end_of_frame f < 2 ^ 7 \<and>
     interframe_space f < 2 ^ 3"

section \<open>The two halves of the field walk\<close>

text \<open>
  For the proofs, the part of \<^verbatim>\<open>_decode_can_message\<close> after the sensor lookup is named
  \<open>decode_after_id\<close>, and within it the part from the reserved bit on \<open>decode_tail\<close>.
  Both are the same statements as in \<open>priv_decode_can_message\<close>.
\<close>

definition decode_tail :: "sensor \<Rightarrow> (sensor \<times> dict) action" where
  "decode_tail sensor_type =
     bind (read_bits_as_int 1) (\<lambda>r0.
     bind (set_data ''r0'' r0) (\<lambda>_.
     bind (read_bits_as_int 4) (\<lambda>dlc.
     bind (set_data ''data_length_code'' dlc) (\<lambda>_.
     bind (times8 dlc) (\<lambda>n.
     bind (read_bits_as_int n) (\<lambda>payload.
     bind (set_data ''data'' payload) (\<lambda>_.
     bind (read_bits_as_int 15) (\<lambda>crc.
     bind (set_data ''crc_segment'' crc) (\<lambda>_.
     bind (read_bits_as_int 1) (\<lambda>crc_delimiter.
     bind (set_data ''crc_delimiter'' crc_delimiter) (\<lambda>_.
     bind (check_bit crc_delimiter ''CRC Delimiter'') (\<lambda>_.
     bind (read_bits_as_int 1) (\<lambda>ack_bit.
     bind (set_data ''ack_bit'' ack_bit) (\<lambda>_.
     bind (read_bits_as_int 1) (\<lambda>ack_delimiter.
     bind (set_data ''ack_delimiter'' ack_delimiter) (\<lambda>_.
     bind (check_bit ack_delimiter ''ACK Delimiter'') (\<lambda>_.
     bind (read_bits_as_int 7) (\<lambda>eof.
     bind (set_data ''end_of_frame'' eof) (\<lambda>_.
     bind (read_bits_as_int 3) (\<lambda>ifs.
     bind (set_data ''interframe_space'' ifs) (\<lambda>_.
     (\<lambda>d. (Inr (sensor_type, data d), d)))))))))))))))))))))))"

definition decode_after_id :: "sensor \<Rightarrow> (sensor \<times> dict) action" where
  "decode_after_id sensor_type =
     bind (read_bits_as_int 1) (\<lambda>rtr.
     bind (set_data ''rtr'' rtr) (\<lambda>_.
     bind (read_bits_as_int 1) (\<lambda>ide.
     bind (set_data ''ide'' ide) (\<lambda>_.
     bind (as_int ide) (\<lambda>ide_int.
     bind (if ide_int = 1
           then bind (set_data ''srr'' rtr) (\<lambda>_.
                bind (read_bits_as_int 18) (\<lambda>ext.
                bind (set_data ''extended_can_id'' ext) (\<lambda>_.
                bind (read_bits_as_int 1) (\<lambda>rtr2.
                set_data ''rtr'' rtr2))))
           else bind (set_data ''srr'' PyNone) (\<lambda>_.
                set_data ''extended_can_id'' PyNone)) (\<lambda>_.
     decode_tail sensor_type))))))"

text \<open>
  What an action can do to the dictionary and with which exception it can end:
  \<open>keeps K a\<close> says that \<open>a\<close> leaves the entries of the keys in \<open>K\<close> as they are and never
  raises \<^verbatim>\<open>InvalidBitException\<close> for the start of frame; \<open>returns_data s a\<close> says that
  what \<open>a\<close> returns is \<open>s\<close> with the dictionary it leaves.
\<close>

definition keeps :: "string set \<Rightarrow> 'a action \<Rightarrow> bool" where
  "keeps K a \<longleftrightarrow>
     (\<forall>d. (\<forall>k\<in>K. map_of (data (snd (a d))) k = map_of (data d) k) \<and>
          (\<forall>v. fst (a d) \<noteq> Inl (InvalidBitException v ''Start of Frame'')))"

definition returns_data :: "sensor \<Rightarrow> (sensor \<times> dict) action \<Rightarrow> bool" where
  "returns_data s a \<longleftrightarrow> (\<forall>d x. fst (a d) = Inr x \<longrightarrow> x = (s, data (snd (a d))))"

text \<open>
  \<open>never_invalid a\<close> says that \<open>a\<close> never ends with an \<^verbatim>\<open>InvalidBitException\<close>, whatever
  the field.
\<close>

definition never_invalid :: "'a action \<Rightarrow> bool" where
  "never_invalid a \<longleftrightarrow> (\<forall>d v f. fst (a d) \<noteq> Inl (InvalidBitException v f))"

section \<open>Facts about bit strings and the built-ins\<close>

lemma binary_Nil [simp]: "binary []"
  by (simp add: binary_def)

lemma binary_Cons [simp]: "binary (c # s) \<longleftrightarrow> (c = CHR ''0'' \<or> c = CHR ''1'') \<and> binary s"
  by (simp add: binary_def)

lemma binary_append [simp]: "binary (s @ t) \<longleftrightarrow> binary s \<and> binary t"
  by (simp add: binary_def)

lemma binary_take [simp]: "binary s \<Longrightarrow> binary (take n s)"
  unfolding binary_def list_all_iff by (auto dest: in_set_takeD)

lemma binary_drop [simp]: "binary s \<Longrightarrow> binary (drop n s)"
  unfolding binary_def list_all_iff by (auto dest: in_set_dropD)

lemma binary_to_bits [simp]: "binary (to_bits w v)"
  by (induction w arbitrary: v) (simp_all add: bit_char_def)

lemma length_to_bits [simp]: "length (to_bits w v) = w"
  by (induction w arbitrary: v) simp_all

lemma bval_Nil [simp]: "bval [] = 0"
  by (simp add: bval_def)

lemma bval_snoc [simp]: "bval (s @ [c]) = 2 * bval s + bit_val c"
  by (simp add: bval_def)

lemma bit_val_bit_char [simp]: "bit_val (bit_char v) = v mod 2"
  by (simp add: bit_val_def bit_char_def)

lemma bval_to_bits: "bval (to_bits w v) = v mod 2 ^ w"
proof (induction w arbitrary: v)
  case 0
  show ?case by simp
next
  case (Suc w)
  have "v mod (2 * 2 ^ w) = 2 * (v div 2 mod 2 ^ w) + v mod 2"
    by (simp add: mod_mult2_eq)
  with Suc show ?case by simp
qed

lemma bval_to_bits_lt [simp]: "v < 2 ^ w \<Longrightarrow> bval (to_bits w v) = v"
  by (simp add: bval_to_bits)


lemma bval_Cons_one_pos: "0 < bval (CHR ''1'' # s)"
proof (induction s rule: rev_induct)
  case Nil
  show ?case by (simp add: bval_def bit_val_def)
next
  case (snoc c s)
  have "bval (CHR ''1'' # s @ [c]) = 2 * bval (CHR ''1'' # s) + bit_val c"
    using bval_snoc [of "CHR ''1'' # s" c] by simp
  with snoc show ?case by simp
qed

lemma bin_digits_step: "0 < n \<Longrightarrow> b < 2 \<Longrightarrow> bin_digits (2 * n + b) = bin_digits n @ [bit_char b]"
  by (subst bin_digits.simps) (auto simp: bit_char_def)

lemma bit_char_bit_val: "c = CHR ''0'' \<or> c = CHR ''1'' \<Longrightarrow> bit_char (bit_val c) = c"
  by (auto simp: bit_char_def bit_val_def)

lemma bin_digits_bval: "binary s \<Longrightarrow> bin_digits (bval (CHR ''1'' # s)) = CHR ''1'' # s"
proof (induction s rule: rev_induct)
  case Nil
  show ?case by (simp add: bval_def bit_val_def bin_digits.simps)
next
  case (snoc c s)
  then have c: "c = CHR ''0'' \<or> c = CHR ''1''" and s: "binary s" by simp_all
  have "bval (CHR ''1'' # s @ [c]) = 2 * bval (CHR ''1'' # s) + bit_val c"
    using bval_snoc [of "CHR ''1'' # s" c] by simp
  moreover have "bit_val c < 2" by (simp add: bit_val_def)
  ultimately have "bin_digits (bval (CHR ''1'' # s @ [c])) = bin_digits (bval (CHR ''1'' # s)) @ [bit_char (bit_val c)]"
    using bin_digits_step [OF bval_Cons_one_pos, of "bit_val c" s] by simp
  with snoc.IH [OF s] c show ?case by (simp add: bit_char_bit_val)
qed

lemma binary_not_space: "binary (c # s) \<Longrightarrow> \<not> is_space c"
  by (auto simp: is_space_def)

lemma strip_binary: "binary s \<Longrightarrow> strip s = s"
proof (cases s rule: rev_cases)
  case Nil
  then show ?thesis by (simp add: strip_def)
next
  case (snoc t c)
  assume b: "binary s"
  with snoc have "\<not> is_space c" by (auto simp: is_space_def)
  then have r: "dropWhile is_space (rev s) = rev s" using snoc by simp
  from b snoc have "s \<noteq> []" by simp
  then obtain a u where au: "s = a # u" by (cases s) auto
  with b have "\<not> is_space a" by (auto simp: is_space_def)
  with au have "dropWhile is_space s = s" by simp
  with r show ?thesis by (simp add: strip_def)
qed

lemma digit_in_binary: "c = CHR ''0'' \<or> c = CHR ''1'' \<Longrightarrow> digit_in 2 c = Some (bit_val c)"
  by (auto simp: digit_in_def digit_val_def bit_val_def)

lemma digits_of_binary:
  "binary s \<Longrightarrow> s \<noteq> [] \<Longrightarrow> digits_of 2 s = Some (map bit_val s)"
proof (induction s)
  case Nil
  then show ?case by simp
next
  case (Cons c s)
  then have c: "c = CHR ''0'' \<or> c = CHR ''1''" and b: "binary s" by simp_all
  show ?case
  proof (cases s)
    case Nil
    with c show ?thesis by (simp add: digit_in_binary)
  next
    case (Cons u cs)
    with b have u: "u \<noteq> CHR ''_''" by auto
    from Cons Cons.IH b have "digits_of 2 (u # cs) = Some (map bit_val (u # cs))" by simp
    with Cons c u show ?thesis by (simp add: digit_in_binary)
  qed
qed

lemma from_digits_bval: "from_digits 2 (map bit_val s) = bval s"
  by (simp add: from_digits_def bval_def foldl_map)

lemma int_base_binary: "binary s \<Longrightarrow> s \<noteq> [] \<Longrightarrow> int_base 2 s = Some (int (bval s))"
proof -
  assume b: "binary s" and n: "s \<noteq> []"
  then obtain a u where au: "s = a # u" by (cases s) auto
  with b have a: "a = CHR ''0'' \<or> a = CHR ''1''" by simp
  have z: "strip_0b s = s"
  proof (cases u)
    case Nil
    with au show ?thesis by (simp add: strip_0b_def)
  next
    case (Cons x r)
    with b au have "x = CHR ''0'' \<or> x = CHR ''1''" by simp
    with au Cons show ?thesis by (auto simp: strip_0b_def)
  qed
  have neg: "(case s of [] \<Rightarrow> False | c # _ \<Rightarrow> c = CHR ''-'') = False"
    using au a by auto
  have sgn: "(case s of [] \<Rightarrow> s | c # r \<Rightarrow> if c = CHR ''+'' \<or> c = CHR ''-'' then r else s) = s"
    using au a by auto
  show ?thesis
    unfolding int_base_def Let_def strip_binary [OF b] neg sgn
    by (simp add: z digits_of_binary [OF b n] from_digits_bval)
qed

lemma int_base_empty: "int_base 2 [] = None"
  by (simp add: int_base_def strip_def strip_0b_def)

lemma binary_bin_digits: "binary (bin_digits n)"
proof (induction n rule: bin_digits.induct)
  case (1 n)
  show ?case
  proof (cases "n < 2")
    case True
    then show ?thesis by (subst bin_digits.simps) simp
  next
    case False
    with 1 show ?thesis by (subst bin_digits.simps) simp
  qed
qed

lemma bin_digits_not_Nil: "bin_digits n \<noteq> []"
  by (subst bin_digits.simps) simp


lemma hd_bin_digits: "0 < n \<Longrightarrow> hd (bin_digits n) = CHR ''1''"
proof (induction n rule: bin_digits.induct)
  case (1 n)
  show ?case
  proof (cases "n < 2")
    case True
    with 1(2) show ?thesis by (subst bin_digits.simps) simp
  next
    case False
    with 1 have "hd (bin_digits (n div 2)) = CHR ''1''" by simp
    with False show ?thesis
      by (subst bin_digits.simps) (simp add: bin_digits_not_Nil)
  qed
qed




lemma init_MsgInt:
  "CANDecoder_init (MsgInt i) =
     (if 130 < length (bin i) then Inl (MessageLengthException (length (bin i)))
      else Inr \<lparr>message = bin i, data = []\<rparr>)"
  by (simp add: CANDecoder_init_def)

lemma init_binary:
  "binary s \<Longrightarrow> s \<noteq> [] \<Longrightarrow> CANDecoder_init (MsgStr s) = CANDecoder_init (MsgInt (int (bval s)))"
  by (simp add: CANDecoder_init_def int_base_binary)

lemma bin_bval_one: "binary s \<Longrightarrow> bin (int (bval (CHR ''1'' # s))) = ''0b1'' @ s"
  by (simp add: bin_def bin_digits_bval)

lemma init_binary_one:
  "binary s \<Longrightarrow>
   CANDecoder_init (MsgStr (CHR ''1'' # s)) =
     (if 127 < length s then Inl (MessageLengthException (length s + 3))
      else Inr \<lparr>message = ''0b1'' @ s, data = []\<rparr>)"
  using init_binary [of "CHR ''1'' # s"] by (simp add: init_MsgInt bin_bval_one)

lemma read_bits_as_int_bits:
  "0 < n \<Longrightarrow> msg \<noteq> [] \<Longrightarrow> binary (take (nat n) msg) \<Longrightarrow>
   read_bits_as_int n \<lparr>message = msg, data = dt\<rparr> =
     (Inr (PyInt (int (bval (take (nat n) msg)))), \<lparr>message = drop (nat n) msg, data = dt\<rparr>)"
  by (simp add: read_bits_as_int_def bind_def read_bits_def slice_to_def slice_from_def
      return_def raise_def int_base_binary)

lemma read_bits_as_int_Nil:
  "0 < n \<Longrightarrow>
   read_bits_as_int n \<lparr>message = [], data = dt\<rparr> = (Inl ValueError, \<lparr>message = [], data = dt\<rparr>)"
  by (simp add: read_bits_as_int_def bind_def read_bits_def slice_to_def slice_from_def
      return_def raise_def int_base_empty)

lemma read_bits_as_int_binary:
  "0 < n \<Longrightarrow> binary msg \<Longrightarrow>
   read_bits_as_int n \<lparr>message = msg, data = dt\<rparr> =
     (if msg = [] then (Inl ValueError, \<lparr>message = [], data = dt\<rparr>)
      else (Inr (PyInt (int (bval (take (nat n) msg)))),
            \<lparr>message = drop (nat n) msg, data = dt\<rparr>))"
  by (simp add: read_bits_as_int_bits read_bits_as_int_Nil)

lemma read_bits_as_int_nonpos:
  "n \<le> 0 \<Longrightarrow> read_bits_as_int n d = (Inr PyNone, d)"
  by (simp add: read_bits_as_int_def return_def)

lemma read_bits_as_int_to_bits:
  "0 < n \<Longrightarrow> nat n = w \<Longrightarrow> v < 2 ^ w \<Longrightarrow>
   read_bits_as_int n \<lparr>message = to_bits w v @ rest, data = dt\<rparr> =
     (Inr (PyInt (int v)), \<lparr>message = rest, data = dt\<rparr>)"
proof -
  assume n: "0 < n" and w: "nat n = w" and v: "v < 2 ^ w"
  from n w have "0 < w" by auto
  then have "length (to_bits w v) \<noteq> 0" by simp
  then have "to_bits w v \<noteq> []" by (simp del: length_to_bits)
  then show ?thesis
    using n w v by (simp add: read_bits_as_int_bits)
qed

lemma read_bits_as_int_to_bits_last:
  "0 < n \<Longrightarrow> nat n = w \<Longrightarrow> v < 2 ^ w \<Longrightarrow>
   read_bits_as_int n \<lparr>message = to_bits w v, data = dt\<rparr> =
     (Inr (PyInt (int v)), \<lparr>message = [], data = dt\<rparr>)"
  using read_bits_as_int_to_bits [of n w v "[]" dt] by simp

section \<open>Evaluating the decoder\<close>

lemmas decoder_defs =
  priv_decode_can_message_def decode_can_message_full_dict_def decode_can_message_def
  decode_def decode_full_def bind_def return_def raise_def set_data_def check_bit_def
  lookup_sensor_def ID_TO_SENSOR_MAP_def as_int_def times8_def slice_from_def

lemmas builtin_defs =
  CANDecoder_init_def int_base_def strip_def is_space_def strip_0b_def digit_in_def
  digit_val_def from_digits_def bin_def bin_digits.simps read_bits_as_int_def read_bits_def
  slice_to_def

section \<open>The concrete temperature frame\<close>

text \<open>
  Claim C2, as the specification states it: the 55-bit string with SOF = 0, identifier
  \<^verbatim>\<open>00000000001\<close>, RTR = 0, IDE = 0, reserved = 0, DLC = \<^verbatim>\<open>0001\<close>, one zero data byte,
  fifteen zero CRC bits, CRC delimiter 1, ACK 0, ACK delimiter 1, seven EOF ones and
  three IFS ones decodes to the temperature sensor and 0.

  On the code it does not. \<^verbatim>\<open>bin(int(message, 2))\<close> drops the eleven leading zeros, so
  the decoder takes the identifier's final 1 for the start of frame, reads the next
  eleven bits \<^verbatim>\<open>00000010000\<close> as identifier 16 and raises \<^verbatim>\<open>NotImplementedError\<close>.

  The same frame with SOF = 1, the value the decoder's messages start with, decodes to
  the temperature sensor and the data value 0.
\<close>

theorem sof1_temperature_frame_decoded:
  "decode (MsgStr ''1000000000010000001000000000000000000000001011111111111'') =
     Inr (Some TemperatureSensor, PyInt 0)"
  by (simp add: decoder_defs builtin_defs)

theorem sof0_temperature_frame_not_decoded:
  "decode (MsgStr ''0000000000010000001000000000000000000000001011111111111'') =
     Inl NotImplementedError"
  by (simp add: decoder_defs builtin_defs)

section \<open>The length limit\<close>

text \<open>
  Claim C5: an input of 131 bits fails the length check and an input of 130 bits passes
  it, the limit being on the bits and not on a string with a format prefix.

  \<^verbatim>\<open>__init__\<close> compares \<^verbatim>\<open>len(self.message)\<close> with 130 while the message still
  starts with \<^verbatim>\<open>0b\<close>, which \<^verbatim>\<open>_decode_can_message\<close> strips only later. So the longest
  message that passes has 128 bits. The first string below is a well-formed extended
  frame with eight data bytes, 130 bits long: it is rejected with the length 132. With
  one more bit the exception carries 133; 129 bits are rejected too, and 128 bits pass.
\<close>

theorem length_check_counts_the_0b_prefix:
  "decode_full (MsgStr ''1000000000010100000000000000000000100000000000000000000000000000000000000000000000000000000000000000000000000000000001011111111111'') =
     Inl (MessageLengthException 132) \<and>
   decode_full (MsgStr ''10000000000101000000000000000000001000000000000000000000000000000000000000000000000000000000000000000000000000000000010111111111111'') =
     Inl (MessageLengthException 133) \<and>
   CANDecoder_init (MsgStr ''100000000001010000000000000000000010000000000000000000000000000000000000000000000000000000000000000000000000000000000101111111111'') =
     Inl (MessageLengthException 131) \<and>
   CANDecoder_init (MsgStr ''10000000000101000000000000000000001000000000000000000000000000000000000000000000000000000000000000000000000000000000010111111111'') =
     Inr \<lparr>message = ''0b10000000000101000000000000000000001000000000000000000000000000000000000000000000000000000000000000000000000000000000010111111111'',
          data = []\<rparr>"
  by (simp add: decode_full_def init_binary_one)

section \<open>Reading zero bits\<close>

text \<open>
  Claim C7: reading zero bits as an unsigned integer returns zero, so the data field
  of a frame with data length code 0 is 0.

  \<^verbatim>\<open>read_bits_as_int\<close> is annotated \<^verbatim>\<open>-> int\<close> and documented to return the bits read as
  an integer, but it has no branch for \<^verbatim>\<open>num_bits == 0\<close>: in every state the call
  returns \<^verbatim>\<open>None\<close> and leaves the message as it is. The frame below (SOF = 1,
  identifier 1, DLC = 0) decodes to the temperature sensor and \<^verbatim>\<open>None\<close>.
\<close>

theorem read_zero_bits_returns_None:
  "read_bits_as_int 0 d = (Inr PyNone, d) \<and>
   decode (MsgStr ''10000000000100000000000000000000001011111111111'') =
     Inr (Some TemperatureSensor, PyNone)"
  by (simp add: decoder_defs builtin_defs)

section \<open>The bit cursor\<close>

lemma read_bits_nat:
  "read_bits (int n) d = (Inr (take n (message d)), d\<lparr>message := drop n (message d)\<rparr>)"
  by (simp add: read_bits_def slice_to_def slice_from_def)

lemma concat_read_all: "concat (read_all ns d) = take (sum_list ns) (message d)"
proof (induction ns arbitrary: d)
  case Nil
  show ?case by simp
next
  case (Cons n ns)
  have "concat (read_all (n # ns) d) =
          take n (message d) @ take (sum_list ns) (drop n (message d))"
    by (simp add: read_bits_nat Cons.IH)
  also have "\<dots> = take (n + sum_list ns) (message d)"
    by (simp add: take_add)
  finally show ?case by simp
qed

text \<open>
  Claim C10: \<^verbatim>\<open>read_bits\<close> never fails. For every count \<open>n\<close> and every state it
  returns the first \<open>min n m\<close> of the \<open>m\<close> remaining characters and leaves the rest, so
  with fewer than \<open>n\<close> left it returns a shorter, possibly empty, string; and what
  successive reads return, put together, is a prefix of the message they started from.
\<close>

theorem read_bits_total:
  "read_bits (int n) d =
     (Inr (take (min n (length (message d))) (message d)),
      d\<lparr>message := drop n (message d)\<rparr>) \<and>
   length (take (min n (length (message d))) (message d)) = min n (length (message d)) \<and>
   prefix (concat (read_all ns d)) (message d)"
proof -
  have "take (min n (length (message d))) (message d) = take n (message d)"
    by (cases "n \<le> length (message d)") (simp_all add: min_def)
  then show ?thesis
    by (simp add: read_bits_nat concat_read_all take_is_prefix)
qed

text \<open>
  Claim C6: a read of \<open>n\<close> bits with fewer than \<open>n\<close> bits remaining fails with the
  typed error \<^verbatim>\<open>InsufficientBits(requested, available)\<close>.

  The module has no such error and no check of the remaining length. With fewer than
  \<open>n\<close> characters left, \<^verbatim>\<open>read_bits\<close> returns all of them and empties the message;
  \<^verbatim>\<open>read_bits_as_int\<close> then returns the number those bits denote when there is at least
  one, and raises Python's \<^verbatim>\<open>ValueError\<close> (from \<^verbatim>\<open>int('', 2)\<close>) when there is none.
\<close>

theorem short_read_is_not_detected:
  "length (message d) < n \<Longrightarrow>
   read_bits (int n) d = (Inr (message d), d\<lparr>message := []\<rparr>) \<and>
   (message d = [] \<longrightarrow> read_bits_as_int (int n) d = (Inl ValueError, d\<lparr>message := []\<rparr>)) \<and>
   (message d \<noteq> [] \<and> binary (message d) \<longrightarrow>
      read_bits_as_int (int n) d =
        (Inr (PyInt (int (bval (message d)))), d\<lparr>message := []\<rparr>))"
  by (simp add: read_bits_as_int_def bind_def read_bits_nat int_base_binary int_base_empty
      return_def raise_def)

theorem short_read_is_not_detected_witness:
  "read_bits 4 \<lparr>message = ''11'', data = []\<rparr> = (Inr ''11'', \<lparr>message = [], data = []\<rparr>) \<and>
   read_bits_as_int 4 \<lparr>message = ''11'', data = []\<rparr> =
     (Inr (PyInt 3), \<lparr>message = [], data = []\<rparr>) \<and>
   read_bits_as_int 1 \<lparr>message = [], data = []\<rparr> =
     (Inl ValueError, \<lparr>message = [], data = []\<rparr>)"
  using short_read_is_not_detected [of "\<lparr>message = ''11'', data = []\<rparr>" 4]
        short_read_is_not_detected [of "\<lparr>message = [], data = []\<rparr>" 1]
  by (simp add: bval_def bit_val_def)

theorem short_read_returns_fewer_bits:
  "read_bits 11 \<lparr>message = ''101'', data = []\<rparr> =
     (Inr ''101'', \<lparr>message = [], data = []\<rparr>) \<and>
   read_bits_as_int 11 \<lparr>message = ''101'', data = []\<rparr> =
     (Inr (PyInt 5), \<lparr>message = [], data = []\<rparr>)"
  by (simp add: decoder_defs builtin_defs)


section \<open>Input normalization\<close>

lemma binary_zeros [simp]: "binary (replicate k (CHR ''0''))"
  by (induction k) simp_all



lemma init_result_is_bin: "CANDecoder_init m = Inr d \<Longrightarrow> \<exists>i. message d = bin i \<and> data d = []"
  by (cases m) (auto simp: CANDecoder_init_def split: option.splits if_splits)

lemma decimal_Cons [simp]: "decimal (c # s) \<longleftrightarrow> c \<in> set ''0123456789'' \<and> decimal s"
  by (simp add: decimal_def)







lemma decimal_Nil [simp]: "decimal []"
  by (simp add: decimal_def)





















section \<open>Round trip\<close>

lemma to_bits_numeral:
  "to_bits (numeral k) v = to_bits (pred_numeral k) (v div 2) @ [bit_char v]"
  by (simp add: numeral_eq_Suc)

lemma to_bits_1: "to_bits 1 v = [bit_char v]"
  by simp

lemma bit_char_cases [simp]: "bit_char v = CHR ''0'' \<or> bit_char v = CHR ''1''"
  by (simp add: bit_char_def)

lemma read_one_bit:
  "v < 2 \<Longrightarrow>
   read_bits_as_int 1 \<lparr>message = bit_char v # rest, data = dt\<rparr> =
     (Inr (PyInt (int v)), \<lparr>message = rest, data = dt\<rparr>)"
  using read_bits_as_int_to_bits [of 1 1 v rest dt] by simp

lemma read_payload:
  "0 < k \<Longrightarrow> v < 2 ^ (8 * k) \<Longrightarrow>
   read_bits_as_int (int k * 8) \<lparr>message = to_bits (8 * k) v @ rest, data = dt\<rparr> =
     (Inr (PyInt (int v)), \<lparr>message = rest, data = dt\<rparr>)"
  by (rule read_bits_as_int_to_bits) (simp_all add: nat_mult_distrib)

lemma encode_frame_binary: "binary (encode_frame f)"
  by (simp add: encode_frame_def split: option.splits)

lemma init_encode_frame:
  "start_of_frame f = 1 \<Longrightarrow> length (encode_frame f) \<le> 128 \<Longrightarrow>
   CANDecoder_init (MsgStr (encode_frame f)) = Inr \<lparr>message = ''0b'' @ encode_frame f, data = []\<rparr>"
proof -
  assume s: "start_of_frame f = 1" and l: "length (encode_frame f) \<le> 128"
  obtain r where r: "encode_frame f = CHR ''1'' # r"
    using s by (simp add: encode_frame_def bit_char_def to_bits_1)
  with encode_frame_binary [of f] have "binary r" by simp
  with l r show ?thesis by (simp add: init_binary_one)
qed

lemmas frame_reads =
  read_bits_as_int_to_bits read_bits_as_int_to_bits_last read_payload read_one_bit

text \<open>
  Claim C1: a bit stream laid out by hand from the field values of any frame, in the
  wire order and widths of the field table, decodes to the same field values.

  On the code this fails for every frame with SOF = 0, whose leading zeros the
  normalization drops. It holds for the frames the decoder is written for: SOF = 1, an
  identifier of the sensor table, every field within its width, at least the one data
  byte, and at most 128 bits in all.
\<close>

theorem round_trip:
  "fits f \<Longrightarrow> start_of_frame f = 1 \<Longrightarrow>
   ID_TO_SENSOR_MAP (int (arbitration_id f)) = Some s \<Longrightarrow>
   0 < data_length_code f \<Longrightarrow> length (encode_frame f) \<le> 128 \<Longrightarrow>
   decode_full (MsgStr (encode_frame f)) = Inr (s, frame_dict f)"
proof -
  assume f: "fits f" and sof: "start_of_frame f = 1"
    and id: "ID_TO_SENSOR_MAP (int (arbitration_id f)) = Some s"
    and dlc: "0 < data_length_code f" and len: "length (encode_frame f) \<le> 128"
  have "fst (priv_decode_can_message \<lparr>message = ''0b'' @ encode_frame f, data = []\<rparr>) =
          Inr (s, frame_dict f)"
  proof (cases "extension f")
    case None
    with f sof id dlc show ?thesis
      by (simp add: fits_def encode_frame_def frame_dict_def priv_decode_can_message_def
          bind_def return_def raise_def set_data_def check_bit_def lookup_sensor_def
          as_int_def times8_def slice_from_def frame_reads)
  next
    case (Some p)
    obtain srr ext where p: "p = (srr, ext)" by (cases p)
    with Some f sof id dlc show ?thesis
      by (simp add: fits_def encode_frame_def frame_dict_def priv_decode_can_message_def
          bind_def return_def raise_def set_data_def check_bit_def lookup_sensor_def
          as_int_def times8_def slice_from_def frame_reads)
  qed
  then show ?thesis
    by (simp add: decode_full_def decode_can_message_full_dict_def init_encode_frame [OF sof len])
qed

theorem round_trip_witness:
  "encode_frame
     \<lparr>start_of_frame = 1, arbitration_id = 5, remote_transmission_request = 0,
        extension = None, reserved_bit = 0, data_length_code = 1, payload = 42, crc = 0,
        crc_delimiter = 1, ack_slot = 0, ack_delimiter = 1, end_of_frame = 127,
        interframe_space = 7\<rparr> =
     ''1000000001010000001001010100000000000000001011111111111'' \<and>
   decode_full (MsgStr ''1000000001010000001001010100000000000000001011111111111'') =
     Inr (FuelLevelSensor,
          [(''sof'', PyInt 1), (''can_id'', PyInt 5), (''rtr'', PyInt 0), 
           (''ide'', PyInt 0), (''srr'', PyNone), (''extended_can_id'', PyNone), 
           (''r0'', PyInt 0), (''data_length_code'', PyInt 1), 
           (''data'', PyInt 42), (''crc_segment'', PyInt 0), 
           (''crc_delimiter'', PyInt 1), (''ack_bit'', PyInt 0), 
           (''ack_delimiter'', PyInt 1), (''end_of_frame'', PyInt 127), 
           (''interframe_space'', PyInt 7)]) \<and>
   decode_full
     (MsgStr (encode_frame
       \<lparr>start_of_frame = 1, arbitration_id = 3, remote_transmission_request = 1,
        extension = Some (0, 77), reserved_bit = 0, data_length_code = 2, payload = 513, crc = 9,
        crc_delimiter = 0, ack_slot = 1, ack_delimiter = 0, end_of_frame = 127,
        interframe_space = 7\<rparr>)) =
     Inr (WheelSpeedSensor,
          [(''sof'', PyInt 1), (''can_id'', PyInt 3), (''rtr'', PyInt 1), 
           (''ide'', PyInt 1), (''srr'', PyInt 0), 
           (''extended_can_id'', PyInt 77), (''r0'', PyInt 0), 
           (''data_length_code'', PyInt 2), (''data'', PyInt 513), 
           (''crc_segment'', PyInt 9), (''crc_delimiter'', PyInt 0), 
           (''ack_bit'', PyInt 1), (''ack_delimiter'', PyInt 0), 
           (''end_of_frame'', PyInt 127), (''interframe_space'', PyInt 7)])"
proof -
  let ?s1 = "''1000000001010000001001010100000000000000001011111111111''"
  let ?d1 =
     "[(''sof'', PyInt 1), (''can_id'', PyInt 5), (''rtr'', PyInt 0), 
       (''ide'', PyInt 0), (''srr'', PyNone), (''extended_can_id'', PyNone), 
       (''r0'', PyInt 0), (''data_length_code'', PyInt 1), 
       (''data'', PyInt 42), (''crc_segment'', PyInt 0), 
       (''crc_delimiter'', PyInt 1), (''ack_bit'', PyInt 0), 
       (''ack_delimiter'', PyInt 1), (''end_of_frame'', PyInt 127), 
       (''interframe_space'', PyInt 7)]"
  let ?d2 =
     "[(''sof'', PyInt 1), (''can_id'', PyInt 3), (''rtr'', PyInt 1), 
       (''ide'', PyInt 1), (''srr'', PyInt 0), 
       (''extended_can_id'', PyInt 77), (''r0'', PyInt 0), 
       (''data_length_code'', PyInt 2), (''data'', PyInt 513), 
       (''crc_segment'', PyInt 9), (''crc_delimiter'', PyInt 0), 
       (''ack_bit'', PyInt 1), (''ack_delimiter'', PyInt 0), 
       (''end_of_frame'', PyInt 127), (''interframe_space'', PyInt 7)]"
  let ?F1 = "\<lparr>start_of_frame = 1, arbitration_id = 5, remote_transmission_request = 0,
        extension = None, reserved_bit = 0, data_length_code = 1, payload = 42, crc = 0,
        crc_delimiter = 1, ack_slot = 0, ack_delimiter = 1, end_of_frame = 127,
        interframe_space = 7\<rparr>"
  have e1: "encode_frame ?F1 = ?s1"
    by (simp add: encode_frame_def to_bits_numeral bit_char_def)
  have l1: "length (encode_frame ?F1) \<le> 128"
    by (simp add: encode_frame_def)
  have d1: "frame_dict ?F1 = ?d1"
    by (simp add: frame_dict_def)
  have "decode_full (MsgStr (encode_frame ?F1)) = Inr (FuelLevelSensor, frame_dict ?F1)"
    by (rule round_trip [OF _ _ _ _ l1]) (simp_all add: fits_def ID_TO_SENSOR_MAP_def)
  then have r1: "decode_full (MsgStr ?s1) = Inr (FuelLevelSensor, ?d1)"
    by (simp only: e1 d1)
  let ?F2 = "\<lparr>start_of_frame = 1, arbitration_id = 3, remote_transmission_request = 1,
        extension = Some (0, 77), reserved_bit = 0, data_length_code = 2, payload = 513, crc = 9,
        crc_delimiter = 0, ack_slot = 1, ack_delimiter = 0, end_of_frame = 127,
        interframe_space = 7\<rparr>"
  have l2: "length (encode_frame ?F2) \<le> 128"
    by (simp add: encode_frame_def)
  have d2: "frame_dict ?F2 = ?d2"
    by (simp add: frame_dict_def)
  have "decode_full (MsgStr (encode_frame ?F2)) = Inr (WheelSpeedSensor, frame_dict ?F2)"
    by (rule round_trip [OF _ _ _ _ l2]) (simp_all add: fits_def ID_TO_SENSOR_MAP_def)
  then have r2: "decode_full (MsgStr (encode_frame ?F2)) = Inr (WheelSpeedSensor, ?d2)"
    by (simp only: d2)
  from e1 r1 r2 show ?thesis by (intro conjI)
qed

theorem sof0_frame_does_not_round_trip:
  "encode_frame
     \<lparr>start_of_frame = 0, arbitration_id = 5, remote_transmission_request = 0,
        extension = None, reserved_bit = 0, data_length_code = 1, payload = 42, crc = 0,
        crc_delimiter = 1, ack_slot = 0, ack_delimiter = 1, end_of_frame = 127,
        interframe_space = 7\<rparr> =
     ''0000000001010000001001010100000000000000001011111111111'' \<and>
   decode_full (MsgStr ''0000000001010000001001010100000000000000001011111111111'') =
     Inl NotImplementedError"
  by (simp add: encode_frame_def to_bits_numeral bit_char_def decoder_defs builtin_defs)

section \<open>The field walk, step by step\<close>

lemma priv_unfold:
  "priv_decode_can_message =
     bind (\<lambda>d. (Inr (), d\<lparr>message := slice_from 2 (message d)\<rparr>)) (\<lambda>_.
     bind (read_bits_as_int 1) (\<lambda>sof.
     bind (set_data ''sof'' sof) (\<lambda>_.
     bind (check_bit sof ''Start of Frame'') (\<lambda>_.
     bind (read_bits_as_int 11) (\<lambda>can_id.
     bind (set_data ''can_id'' can_id) (\<lambda>_.
     bind (lookup_sensor can_id) (\<lambda>sensor_type.
     decode_after_id sensor_type)))))))"
  by (simp only: priv_decode_can_message_def decode_after_id_def decode_tail_def)

lemma keeps_bind: "keeps K m \<Longrightarrow> (\<And>x. keeps K (f x)) \<Longrightarrow> keeps K (bind m f)"
  unfolding keeps_def bind_def
  by (auto split: prod.splits sum.splits) (metis fst_conv snd_conv)+

lemma keeps_read [simp]: "keeps K (read_bits_as_int n)"
  by (auto simp: keeps_def read_bits_as_int_def bind_def read_bits_def return_def raise_def
      split: option.splits)

lemma keeps_set [simp]: "k \<notin> K \<Longrightarrow> keeps K (set_data k v)"
  by (auto simp: keeps_def set_data_def update_conv')

lemma keeps_check [simp]: "f \<noteq> ''Start of Frame'' \<Longrightarrow> keeps K (check_bit v f)"
  by (auto simp: keeps_def check_bit_def return_def raise_def)

lemma keeps_as_int [simp]: "keeps K (as_int v)"
  by (auto simp: keeps_def as_int_def return_def raise_def split: pyval.splits option.splits)

lemma keeps_times8 [simp]: "keeps K (times8 v)"
  by (auto simp: keeps_def times8_def return_def raise_def split: pyval.splits)

lemma keeps_final [simp]: "keeps K (\<lambda>d. (Inr (g d), d))"
  by (simp add: keeps_def)

lemma keeps_if: "keeps K a \<Longrightarrow> keeps K b \<Longrightarrow> keeps K (if c then a else b)"
  by simp

lemma keeps_decode_tail:
  "K \<subseteq> {''sof'', ''can_id'', ''rtr'', ''ide'', ''srr'', ''extended_can_id''} \<Longrightarrow>
   keeps K (decode_tail s)"
  unfolding decode_tail_def
  by (intro keeps_bind keeps_read keeps_set keeps_check keeps_times8 keeps_final) auto

lemma keeps_decode_after_id:
  "K \<subseteq> {''sof'', ''can_id''} \<Longrightarrow> keeps K (decode_after_id s)"
  unfolding decode_after_id_def
  by (intro keeps_bind keeps_read keeps_set keeps_as_int keeps_if keeps_decode_tail) auto

lemma returns_data_bind: "(\<And>x. returns_data s (f x)) \<Longrightarrow> returns_data s (bind m f)"
  unfolding returns_data_def bind_def
  by (auto split: prod.splits sum.splits)

lemma returns_data_decode_tail: "returns_data s (decode_tail s)"
  unfolding decode_tail_def
  by (intro returns_data_bind) (simp add: returns_data_def)

lemma read_bits_as_int_any:
  "binary msg \<Longrightarrow>
   read_bits_as_int n \<lparr>message = msg, data = dt\<rparr> =
     (if n \<le> 0 then (Inr PyNone, \<lparr>message = msg, data = dt\<rparr>)
      else if msg = [] then (Inl ValueError, \<lparr>message = [], data = dt\<rparr>)
      else (Inr (PyInt (int (bval (take (nat n) msg)))),
            \<lparr>message = drop (nat n) msg, data = dt\<rparr>))"
  by (simp add: read_bits_as_int_binary read_bits_as_int_nonpos)

lemma init_cases:
  "CANDecoder_init m = Inr d \<Longrightarrow>
   data d = [] \<and>
   ((\<exists>bits. message d = ''0b'' @ bits \<and> binary bits \<and> bits \<noteq> []) \<or>
    (\<exists>bits. message d = ''-0b'' @ bits \<and> binary bits))"
proof -
  assume "CANDecoder_init m = Inr d"
  then obtain i where i: "message d = bin i" and e: "data d = []"
    using init_result_is_bin by blast
  show ?thesis
  proof (cases "i < 0")
    case True
    with i have "message d = ''-0b'' @ bin_digits (nat (- i))" by (simp add: bin_def)
    with e show ?thesis using binary_bin_digits by blast
  next
    case False
    with i have "message d = ''0b'' @ bin_digits (nat i)" by (simp add: bin_def)
    with e show ?thesis using binary_bin_digits bin_digits_not_Nil by blast
  qed
qed

lemma priv_negative:
  "priv_decode_can_message \<lparr>message = ''-0b'' @ bits, data = []\<rparr> =
     (Inl ValueError, \<lparr>message = bits, data = []\<rparr>)"
  by (simp add: priv_decode_can_message_def bind_def slice_from_def builtin_defs raise_def)

lemma keepsD:
  "keeps K a \<Longrightarrow> a d = (r, d') \<Longrightarrow>
   (\<forall>k\<in>K. map_of (data d') k = map_of (data d) k) \<and>
   (\<forall>v. r \<noteq> Inl (InvalidBitException v ''Start of Frame''))"
proof -
  assume k: "keeps K a" and a: "a d = (r, d')"
  from k have "(\<forall>k\<in>K. map_of (data (snd (a d))) k = map_of (data d) k) \<and>
               (\<forall>v. fst (a d) \<noteq> Inl (InvalidBitException v ''Start of Frame''))"
    unfolding keeps_def by (rule spec)
  with a show ?thesis by simp
qed

lemma returns_dataD: "returns_data s a \<Longrightarrow> a d = (Inr x, d') \<Longrightarrow> x = (s, data d')"
proof -
  assume k: "returns_data s a" and a: "a d = (Inr x, d')"
  from k have "fst (a d) = Inr x \<longrightarrow> x = (s, data (snd (a d)))"
    unfolding returns_data_def by blast
  with a show ?thesis by simp
qed

lemma sensor_None: "ID_TO_SENSOR_MAP i = None \<longleftrightarrow> i \<notin> {1, 2, 3, 4, 5}"
  by (simp add: ID_TO_SENSOR_MAP_def)

lemma bval_take_1: "binary s \<Longrightarrow> bval (take 1 s) = 0 \<or> bval (take 1 s) = 1"
  by (cases s) (auto simp: bval_def bit_val_def)

lemma priv_head:
  "binary bits \<Longrightarrow>
   priv_decode_can_message \<lparr>message = ''0b'' @ bits, data = []\<rparr> =
     (if bits = [] then (Inl ValueError, \<lparr>message = [], data = []\<rparr>)
      else if length bits \<le> 1
      then (Inl ValueError,
            \<lparr>message = [], data = [(''sof'', PyInt (int (bval (take 1 bits))))]\<rparr>)
      else case ID_TO_SENSOR_MAP (int (bval (take 11 (drop 1 bits)))) of
             None \<Rightarrow>
               (Inl NotImplementedError,
                \<lparr>message = drop 12 bits,
                 data = [(''sof'', PyInt (int (bval (take 1 bits)))),
                         (''can_id'', PyInt (int (bval (take 11 (drop 1 bits)))))]\<rparr>)
           | Some s \<Rightarrow>
               decode_after_id s
                \<lparr>message = drop 12 bits,
                 data = [(''sof'', PyInt (int (bval (take 1 bits)))),
                         (''can_id'', PyInt (int (bval (take 11 (drop 1 bits)))))]\<rparr>)"
  by (simp add: priv_unfold bind_def set_data_def check_bit_def lookup_sensor_def return_def
      raise_def slice_from_def read_bits_as_int_any split: option.splits)

lemma tail_success:
  "decode_tail s \<lparr>message = msg, data = D\<rparr> = (Inr (s', dt), d') \<Longrightarrow>
   map_of dt ''rtr'' = map_of D ''rtr'' \<and> map_of dt ''ide'' = map_of D ''ide'' \<and>
   map_of dt ''srr'' = map_of D ''srr'' \<and>
   map_of dt ''extended_can_id'' = map_of D ''extended_can_id''"
proof -
  assume a: "decode_tail s \<lparr>message = msg, data = D\<rparr> = (Inr (s', dt), d')"
  have "dt = data d'"
    using returns_dataD [OF returns_data_decode_tail a] by simp
  moreover have "\<forall>k\<in>{''rtr'', ''ide'', ''srr'', ''extended_can_id''}.
      map_of (data d') k = map_of (data \<lparr>message = msg, data = D\<rparr>) k"
    using keepsD [OF keeps_decode_tail [of "{''rtr'', ''ide'', ''srr'', ''extended_can_id''}" s] a]
    by simp
  ultimately show ?thesis by simp
qed

lemma after_id_success:
  "binary msg \<Longrightarrow>
   decode_after_id s \<lparr>message = msg, data = D\<rparr> = (Inr (s', dt), d') \<Longrightarrow>
   (map_of dt ''ide'' = Some (PyInt 0) \<and> map_of dt ''srr'' = Some PyNone \<and>
      map_of dt ''extended_can_id'' = Some PyNone \<and>
      map_of dt ''rtr'' = Some (PyInt (int (bval (take 1 msg))))) \<or>
   (map_of dt ''ide'' = Some (PyInt 1) \<and> 20 < length msg \<and>
      map_of dt ''srr'' = Some (PyInt (int (bval (take 1 msg)))) \<and>
      map_of dt ''extended_can_id'' = Some (PyInt (int (bval (take 18 (drop 2 msg))))) \<and>
      map_of dt ''rtr'' = Some (PyInt (int (bval (take 1 (drop 20 msg))))))"
  using bval_take_1 [of "drop 1 msg"]
  by (auto simp: decode_after_id_def bind_def set_data_def as_int_def return_def raise_def
      read_bits_as_int_any update_conv' split: if_splits dest!: tail_success)
    (simp_all add: numeral_2_eq_2)

lemma decode_full_success:
  "CANDecoder_init m = Inr d \<Longrightarrow> decode_full m = Inr (s, dt) \<Longrightarrow>
   \<exists>bits s0 d'. message d = ''0b'' @ bits \<and> binary bits \<and> 1 < length bits \<and>
      decode_after_id s0
        \<lparr>message = drop 12 bits,
         data = [(''sof'', PyInt (int (bval (take 1 bits)))),
                 (''can_id'', PyInt (int (bval (take 11 (drop 1 bits)))))]\<rparr> = (Inr (s, dt), d')"
proof -
  assume i: "CANDecoder_init m = Inr d" and f: "decode_full m = Inr (s, dt)"
  from f i have p: "fst (priv_decode_can_message d) = Inr (s, dt)"
    by (simp add: decode_full_def decode_can_message_full_dict_def)
  from init_cases [OF i] have e: "data d = []"
    and c: "(\<exists>bits. message d = ''0b'' @ bits \<and> binary bits \<and> bits \<noteq> []) \<or>
            (\<exists>bits. message d = ''-0b'' @ bits \<and> binary bits)"
    by simp_all
  from c show ?thesis
  proof
    assume "\<exists>bits. message d = ''-0b'' @ bits \<and> binary bits"
    then obtain bits where "message d = ''-0b'' @ bits" by blast
    with e have "d = \<lparr>message = ''-0b'' @ bits, data = []\<rparr>" by simp
    with p show ?thesis using priv_negative [of bits] by simp
  next
    assume "\<exists>bits. message d = ''0b'' @ bits \<and> binary bits \<and> bits \<noteq> []"
    then obtain bits where m: "message d = ''0b'' @ bits" and b: "binary bits" by blast
    let ?D = "\<lparr>message = drop 12 bits,
         data = [(''sof'', PyInt (int (bval (take 1 bits)))),
                 (''can_id'', PyInt (int (bval (take 11 (drop 1 bits)))))]\<rparr>"
    from m e have d: "d = \<lparr>message = ''0b'' @ bits, data = []\<rparr>" by simp
    from p have l: "1 < length bits"
      unfolding d priv_head [OF b] by (auto split: if_splits)
    from p l obtain s0 where s0: "fst (decode_after_id s0 ?D) = Inr (s, dt)"
      unfolding d priv_head [OF b] by (auto split: if_splits option.splits)
    obtain r d' where r: "decode_after_id s0 ?D = (r, d')" by (cases "decode_after_id s0 ?D")
    with s0 have "decode_after_id s0 ?D = (Inr (s, dt), d')" by simp
    with m b l show ?thesis by blast
  qed
qed

lemmas literal_reads =
  priv_decode_can_message_def bind_def return_def raise_def set_data_def check_bit_def
  lookup_sensor_def ID_TO_SENSOR_MAP_def as_int_def times8_def slice_from_def
  read_bits_as_int_any bval_def bit_val_def

section \<open>Standard and extended frames\<close>

text \<open>
  Claim C8: for every input that \<^verbatim>\<open>decode_can_message_full_dict\<close> decodes, the stored
  \<^verbatim>\<open>ide\<close> is 0 or 1. When it is 0, \<^verbatim>\<open>srr\<close> and \<^verbatim>\<open>extended_can_id\<close> are recorded as
  \<^verbatim>\<open>None\<close> (and \<^verbatim>\<open>rtr\<close> is the bit after the identifier). When it is 1, \<^verbatim>\<open>srr\<close> holds
  the first-read RTR bit (the bit after the identifier), \<^verbatim>\<open>extended_can_id\<close> the 18
  bits after the IDE bit, and the final \<^verbatim>\<open>rtr\<close> is the bit read after those 18 bits,
  not the first. The positions are those in the bits of the normalized message.
\<close>

theorem extension_fields_follow_ide:
  "CANDecoder_init m = Inr d \<Longrightarrow> decode_full m = Inr (s, dt) \<Longrightarrow>
   \<exists>bits. message d = ''0b'' @ bits \<and> binary bits \<and>
     (map_of dt ''ide'' = Some (PyInt 0) \<or> map_of dt ''ide'' = Some (PyInt 1)) \<and>
     (map_of dt ''ide'' = Some (PyInt 0) \<longrightarrow>
        map_of dt ''srr'' = Some PyNone \<and> map_of dt ''extended_can_id'' = Some PyNone \<and>
        map_of dt ''rtr'' = Some (PyInt (int (bval (take 1 (drop 12 bits)))))) \<and>
     (map_of dt ''ide'' = Some (PyInt 1) \<longrightarrow>
        32 < length bits \<and>
        map_of dt ''srr'' = Some (PyInt (int (bval (take 1 (drop 12 bits))))) \<and>
        map_of dt ''extended_can_id'' = Some (PyInt (int (bval (take 18 (drop 14 bits))))) \<and>
        map_of dt ''rtr'' = Some (PyInt (int (bval (take 1 (drop 32 bits))))))"
proof -
  assume i: "CANDecoder_init m = Inr d" and f: "decode_full m = Inr (s, dt)"
  from decode_full_success [OF i f] obtain bits s0 d' where
    m: "message d = ''0b'' @ bits" and b: "binary bits" and
    a: "decode_after_id s0
        \<lparr>message = drop 12 bits,
         data = [(''sof'', PyInt (int (bval (take 1 bits)))),
                 (''can_id'', PyInt (int (bval (take 11 (drop 1 bits)))))]\<rparr> = (Inr (s, dt), d')"
    by blast
  from b have "binary (drop 12 bits)" by simp
  from after_id_success [OF this a]
  have "(map_of dt ''ide'' = Some (PyInt 0) \<or> map_of dt ''ide'' = Some (PyInt 1)) \<and>
     (map_of dt ''ide'' = Some (PyInt 0) \<longrightarrow>
        map_of dt ''srr'' = Some PyNone \<and> map_of dt ''extended_can_id'' = Some PyNone \<and>
        map_of dt ''rtr'' = Some (PyInt (int (bval (take 1 (drop 12 bits)))))) \<and>
     (map_of dt ''ide'' = Some (PyInt 1) \<longrightarrow>
        32 < length bits \<and>
        map_of dt ''srr'' = Some (PyInt (int (bval (take 1 (drop 12 bits))))) \<and>
        map_of dt ''extended_can_id'' = Some (PyInt (int (bval (take 18 (drop 14 bits))))) \<and>
        map_of dt ''rtr'' = Some (PyInt (int (bval (take 1 (drop 32 bits))))))"
    by auto
  with m b show ?thesis by blast
qed

theorem extension_fields_follow_ide_witness:
  "decode_full (MsgStr ''1000000001001000001000001110000000000000001011111111111'') =
     Inr (SuspensionSensor,
      [(''sof'', PyInt 1), (''can_id'', PyInt 4), (''rtr'', PyInt 1),
       (''ide'', PyInt 0), (''srr'', PyNone), (''extended_can_id'', PyNone),
       (''r0'', PyInt 0), (''data_length_code'', PyInt 1),
       (''data'', PyInt 7), (''crc_segment'', PyInt 0),
       (''crc_delimiter'', PyInt 1), (''ack_bit'', PyInt 0),
       (''ack_delimiter'', PyInt 1), (''end_of_frame'', PyInt 127),
       (''interframe_space'', PyInt 7)]) \<and>
   bval (take 1 (drop 12 ''1000000001001000001000001110000000000000001011111111111'')) = 1 \<and>
   decode_full (MsgStr ''10000000001011000000000000000101000001111111110000000000000111111111111111'') =
     Inr (AccelerationSensor,
      [(''sof'', PyInt 1), (''can_id'', PyInt 2), (''rtr'', PyInt 0),
       (''ide'', PyInt 1), (''srr'', PyInt 1), (''extended_can_id'', PyInt 5),
       (''r0'', PyInt 0), (''data_length_code'', PyInt 1),
       (''data'', PyInt 255), (''crc_segment'', PyInt 3),
       (''crc_delimiter'', PyInt 1), (''ack_bit'', PyInt 1),
       (''ack_delimiter'', PyInt 1), (''end_of_frame'', PyInt 127),
       (''interframe_space'', PyInt 7)]) \<and>
   bval (take 1 (drop 12 ''10000000001011000000000000000101000001111111110000000000000111111111111111'')) = 1 \<and>
   bval (take 18 (drop 14 ''10000000001011000000000000000101000001111111110000000000000111111111111111'')) = 5 \<and>
   bval (take 1 (drop 32 ''10000000001011000000000000000101000001111111110000000000000111111111111111'')) = 0"
proof -
  let ?fa = "''1000000001001000001000001110000000000000001011111111111''"
  let ?da =
     "[(''sof'', PyInt 1), (''can_id'', PyInt 4), (''rtr'', PyInt 1),
       (''ide'', PyInt 0), (''srr'', PyNone), (''extended_can_id'', PyNone),
       (''r0'', PyInt 0), (''data_length_code'', PyInt 1),
       (''data'', PyInt 7), (''crc_segment'', PyInt 0),
       (''crc_delimiter'', PyInt 1), (''ack_bit'', PyInt 0),
       (''ack_delimiter'', PyInt 1), (''end_of_frame'', PyInt 127),
       (''interframe_space'', PyInt 7)]"
  let ?fb = "''10000000001011000000000000000101000001111111110000000000000111111111111111''"
  let ?db =
     "[(''sof'', PyInt 1), (''can_id'', PyInt 2), (''rtr'', PyInt 0),
       (''ide'', PyInt 1), (''srr'', PyInt 1), (''extended_can_id'', PyInt 5),
       (''r0'', PyInt 0), (''data_length_code'', PyInt 1),
       (''data'', PyInt 255), (''crc_segment'', PyInt 3),
       (''crc_delimiter'', PyInt 1), (''ack_bit'', PyInt 1),
       (''ack_delimiter'', PyInt 1), (''end_of_frame'', PyInt 127),
       (''interframe_space'', PyInt 7)]"
  have i1: "CANDecoder_init (MsgStr ?fa) = Inr \<lparr>message = ''0b'' @ ?fa, data = []\<rparr>"
    by (simp add: init_binary_one)
  have p1: "decode_full (MsgStr ?fa) = Inr (SuspensionSensor, ?da)"
    unfolding decode_full_def decode_can_message_full_dict_def i1
    by (simp add: literal_reads)
  have i2: "CANDecoder_init (MsgStr ?fb) = Inr \<lparr>message = ''0b'' @ ?fb, data = []\<rparr>"
    by (simp add: init_binary_one)
  have p2: "decode_full (MsgStr ?fb) = Inr (AccelerationSensor, ?db)"
    unfolding decode_full_def decode_can_message_full_dict_def i2
    by (simp add: literal_reads)
  from extension_fields_follow_ide [OF i1 p1]
  have "map_of ?da ''rtr'' = Some (PyInt (int (bval (take 1 (drop 12 ?fa)))))"
    by simp
  then have b1: "bval (take 1 (drop 12 ?fa)) = 1" by simp
  from extension_fields_follow_ide [OF i2 p2]
  have "map_of ?db ''srr'' = Some (PyInt (int (bval (take 1 (drop 12 ?fb))))) \<and>
        map_of ?db ''extended_can_id'' = Some (PyInt (int (bval (take 18 (drop 14 ?fb))))) \<and>
        map_of ?db ''rtr'' = Some (PyInt (int (bval (take 1 (drop 32 ?fb)))))"
    by simp
  then have b2: "bval (take 1 (drop 12 ?fb)) = 1 \<and> bval (take 18 (drop 14 ?fb)) = 5 \<and>
                 bval (take 1 (drop 32 ?fb)) = 0"
    by simp
  from p1 b1 p2 b2 show ?thesis by (intro conjI) simp_all
qed

section \<open>Identifiers outside the sensor table\<close>

lemma decode_of_priv_error:
  "CANDecoder_init m = Inr d \<Longrightarrow> fst (priv_decode_can_message d) = Inl e \<Longrightarrow>
   decode_full m = Inl e \<and> decode m = Inl e"
  by (cases "priv_decode_can_message d")
     (simp add: decode_full_def decode_def decode_can_message_full_dict_def
        decode_can_message_def bind_def)

text \<open>
  Claim C4: an input whose decoded 11-bit identifier is not one of 1 to 5 fails as soon
  as the identifier is read, with an error of its own that carries the identifier.

  On the code the failure is Python's \<^verbatim>\<open>NotImplementedError()\<close>, raised without
  arguments: the identifier is only written to the log, and two inputs with different
  unknown identifiers end with the same exception. The rest holds: whenever the
  decoder has stored a \<^verbatim>\<open>can_id\<close> outside the table, it has raised that exception right
  after the lookup. The message is then what follows the 12 bits read, and the
  dictionary holds \<^verbatim>\<open>sof\<close> and \<^verbatim>\<open>can_id\<close> only.
\<close>

theorem unknown_id_raises_NotImplementedError:
  "CANDecoder_init m = Inr d \<Longrightarrow> priv_decode_can_message d = (r, d') \<Longrightarrow>
   map_of (data d') ''can_id'' = Some (PyInt i) \<Longrightarrow> i \<notin> {1, 2, 3, 4, 5} \<Longrightarrow>
   r = Inl NotImplementedError \<and>
   decode_full m = Inl NotImplementedError \<and> decode m = Inl NotImplementedError \<and>
   (\<exists>bits. message d = ''0b'' @ bits \<and> binary bits \<and>
      i = int (bval (take 11 (drop 1 bits))) \<and>
      message d' = drop 12 bits \<and>
      data d' = [(''sof'', PyInt (int (bval (take 1 bits)))), (''can_id'', PyInt i)])"
proof -
  assume i: "CANDecoder_init m = Inr d" and p: "priv_decode_can_message d = (r, d')"
    and c: "map_of (data d') ''can_id'' = Some (PyInt i)" and u: "i \<notin> {1, 2, 3, 4, 5}"
  from init_cases [OF i] have e: "data d = []"
    and cs: "(\<exists>bits. message d = ''0b'' @ bits \<and> binary bits \<and> bits \<noteq> []) \<or>
            (\<exists>bits. message d = ''-0b'' @ bits \<and> binary bits)"
    by simp_all
  have "r = Inl NotImplementedError \<and>
     (\<exists>bits. message d = ''0b'' @ bits \<and> binary bits \<and>
        i = int (bval (take 11 (drop 1 bits))) \<and>
        message d' = drop 12 bits \<and>
        data d' = [(''sof'', PyInt (int (bval (take 1 bits)))), (''can_id'', PyInt i)])"
    using cs
  proof
    assume "\<exists>bits. message d = ''-0b'' @ bits \<and> binary bits"
    then obtain bits where "message d = ''-0b'' @ bits" by blast
    with e have "d = \<lparr>message = ''-0b'' @ bits, data = []\<rparr>" by simp
    with p c show ?thesis using priv_negative [of bits] by auto
  next
    assume "\<exists>bits. message d = ''0b'' @ bits \<and> binary bits \<and> bits \<noteq> []"
    then obtain bits where m: "message d = ''0b'' @ bits" and b: "binary bits" by blast
    let ?i = "int (bval (take 11 (drop 1 bits)))"
    let ?D = "\<lparr>message = drop 12 bits,
         data = [(''sof'', PyInt (int (bval (take 1 bits)))), (''can_id'', PyInt ?i)]\<rparr>"
    from m e have d: "d = \<lparr>message = ''0b'' @ bits, data = []\<rparr>" by simp
    note h = p [unfolded d priv_head [OF b]]
    from h c have l: "1 < length bits" by (auto split: if_splits)
    then have ne: "bits \<noteq> []" by auto
    from h l ne have h2:
      "(case ID_TO_SENSOR_MAP ?i of None \<Rightarrow> (Inl NotImplementedError, ?D)
        | Some s \<Rightarrow> decode_after_id s ?D) = (r, d')"
      by simp
    show ?thesis
    proof (cases "ID_TO_SENSOR_MAP ?i")
      case None
      with h2 have "r = Inl NotImplementedError" and "d' = ?D" by simp_all
      with c m b show ?thesis by auto
    next
      case (Some s0)
      with h2 have a: "decode_after_id s0 ?D = (r, d')" by simp
      from keepsD [OF keeps_decode_after_id [of "{''can_id''}" s0] a]
      have "map_of (data d') ''can_id'' = Some (PyInt ?i)" by simp
      with c have "i = ?i" by simp
      with Some u show ?thesis by (simp add: ID_TO_SENSOR_MAP_def split: if_splits)
    qed
  qed
  moreover from this p have "fst (priv_decode_can_message d) = Inl NotImplementedError" by simp
  from decode_of_priv_error [OF i this]
  have "decode_full m = Inl NotImplementedError \<and> decode m = Inl NotImplementedError" .
  ultimately show ?thesis by blast
qed

theorem unknown_id_raises_NotImplementedError_witness:
  "priv_decode_can_message
     \<lparr>message = ''0b1000000010010000001000000000000000000000001011111111111'', data = []\<rparr> =
     (Inl NotImplementedError,
      \<lparr>message = ''0000001000000000000000000000001011111111111'',
         data = [(''sof'', PyInt 1), (''can_id'', PyInt 9)]\<rparr>) \<and>
   decode_full (MsgStr ''1000000010010000001000000000000000000000001011111111111'') =
     Inl NotImplementedError \<and>
   decode (MsgStr ''1000000010010000001000000000000000000000001011111111111'') =
     Inl NotImplementedError"
proof -
  let ?f = "''1000000010010000001000000000000000000000001011111111111''"
  let ?d' = "\<lparr>message = ''0000001000000000000000000000001011111111111'',
         data = [(''sof'', PyInt 1), (''can_id'', PyInt 9)]\<rparr>"
  have i: "CANDecoder_init (MsgStr ?f) = Inr \<lparr>message = ''0b'' @ ?f, data = []\<rparr>"
    by (simp add: init_binary_one)
  have p: "priv_decode_can_message \<lparr>message = ''0b'' @ ?f, data = []\<rparr> =
             (Inl NotImplementedError, ?d')"
    by (simp add: literal_reads)
  have c: "map_of (data ?d') ''can_id'' = Some (PyInt 9)" by simp
  have u: "(9::int) \<notin> {1, 2, 3, 4, 5}" by simp
  from unknown_id_raises_NotImplementedError [OF i p c u]
  have "decode_full (MsgStr ?f) = Inl NotImplementedError \<and>
        decode (MsgStr ?f) = Inl NotImplementedError"
    by simp
  with p show ?thesis by simp
qed

theorem exception_does_not_carry_the_id:
  "priv_decode_can_message
     \<lparr>message = ''0b1000000001100000001000000000000000000000001011111111111'', data = []\<rparr> =
     (Inl NotImplementedError,
      \<lparr>message = ''0000001000000000000000000000001011111111111'',
         data = [(''sof'', PyInt 1), (''can_id'', PyInt 6)]\<rparr>) \<and>
   decode_full (MsgStr ''1000000001100000001000000000000000000000001011111111111'') =
     Inl NotImplementedError \<and>
   priv_decode_can_message
     \<lparr>message = ''0b1111111111110000001000000000000000000000001011111111111'', data = []\<rparr> =
     (Inl NotImplementedError,
      \<lparr>message = ''0000001000000000000000000000001011111111111'',
         data = [(''sof'', PyInt 1), (''can_id'', PyInt 2047)]\<rparr>) \<and>
   decode_full (MsgStr ''1111111111110000001000000000000000000000001011111111111'') =
     Inl NotImplementedError"
  by (simp add: decode_full_def decode_can_message_full_dict_def init_binary_one literal_reads)

section \<open>The checks of the fixed bits\<close>

lemma never_invalid_bind_gen:
  "(\<And>d x d'. m d = (Inr x, d') \<Longrightarrow> P x) \<Longrightarrow> never_invalid m \<Longrightarrow>
   (\<And>x. P x \<Longrightarrow> never_invalid (f x)) \<Longrightarrow> never_invalid (bind m f)"
proof -
  assume r: "\<And>d x d'. m d = (Inr x, d') \<Longrightarrow> P x" and m: "never_invalid m"
    and f: "\<And>x. P x \<Longrightarrow> never_invalid (f x)"
  show ?thesis
    unfolding never_invalid_def
  proof (intro allI)
    fix d v fn
    obtain r0 d0 where md: "m d = (r0, d0)" by (cases "m d")
    show "fst (bind m f d) \<noteq> Inl (InvalidBitException v fn)"
    proof (cases r0)
      case (Inl e)
      from m have "fst (m d) \<noteq> Inl (InvalidBitException v fn)"
        unfolding never_invalid_def by blast
      with md Inl show ?thesis by (simp add: bind_def)
    next
      case (Inr x)
      with md have "m d = (Inr x, d0)" by simp
      then have "P x" by (rule r)
      then have "never_invalid (f x)" by (rule f)
      then have "fst (f x d0) \<noteq> Inl (InvalidBitException v fn)"
        unfolding never_invalid_def by blast
      with md Inr show ?thesis by (simp add: bind_def)
    qed
  qed
qed

lemma never_invalid_read: "never_invalid (read_bits_as_int n)"
  by (auto simp: never_invalid_def read_bits_as_int_def bind_def read_bits_def return_def
      raise_def split: option.splits)

lemma never_invalid_set: "never_invalid (set_data k v)"
  by (simp add: never_invalid_def set_data_def)

lemma never_invalid_check: "v \<noteq> PyStr ''0'' \<Longrightarrow> never_invalid (check_bit v fn)"
  by (simp add: never_invalid_def check_bit_def return_def)

lemma never_invalid_as_int: "never_invalid (as_int v)"
  by (auto simp: never_invalid_def as_int_def return_def raise_def
      split: pyval.splits option.splits)

lemma never_invalid_times8: "never_invalid (times8 v)"
  by (auto simp: never_invalid_def times8_def return_def raise_def split: pyval.splits)

lemma never_invalid_lookup: "never_invalid (lookup_sensor v)"
  by (auto simp: never_invalid_def lookup_sensor_def return_def raise_def
      split: pyval.splits option.splits)

lemma never_invalid_if:
  "never_invalid a \<Longrightarrow> never_invalid b \<Longrightarrow> never_invalid (if c then a else b)"
  by simp

lemma never_invalid_final: "never_invalid (\<lambda>d. (Inr (g d), d))"
  by (simp add: never_invalid_def)

lemma read_not_str: "read_bits_as_int n d = (Inr x, d') \<Longrightarrow> x \<noteq> PyStr ''0''"
  by (auto simp: read_bits_as_int_def bind_def read_bits_def return_def raise_def
      split: option.splits if_splits)

lemma never_invalid_bind_read:
  "(\<And>x. x \<noteq> PyStr ''0'' \<Longrightarrow> never_invalid (f x)) \<Longrightarrow>
   never_invalid (bind (read_bits_as_int n) f)"
  by (rule never_invalid_bind_gen [where P = "\<lambda>x. x \<noteq> PyStr ''0''"])
     (auto dest: read_not_str simp: never_invalid_read)

lemma never_invalid_bind_any:
  "never_invalid m \<Longrightarrow> (\<And>x. never_invalid (f x)) \<Longrightarrow> never_invalid (bind m f)"
  by (rule never_invalid_bind_gen [where P = "\<lambda>x. True"]) simp_all

lemmas never_invalid_bind_set = never_invalid_bind_any [OF never_invalid_set]
lemmas never_invalid_bind_check = never_invalid_bind_any [OF never_invalid_check]
lemmas never_invalid_bind_as_int = never_invalid_bind_any [OF never_invalid_as_int]
lemmas never_invalid_bind_times8 = never_invalid_bind_any [OF never_invalid_times8]
lemmas never_invalid_bind_lookup = never_invalid_bind_any [OF never_invalid_lookup]

lemmas never_invalid_steps =
  never_invalid_bind_read never_invalid_bind_set never_invalid_bind_check
  never_invalid_bind_as_int never_invalid_bind_times8 never_invalid_bind_lookup
  never_invalid_final never_invalid_set

lemma never_invalid_decode_tail: "never_invalid (decode_tail s)"
  unfolding decode_tail_def by (intro never_invalid_steps)

lemma never_invalid_decode_after_id: "never_invalid (decode_after_id s)"
  unfolding decode_after_id_def
proof (intro never_invalid_steps)
  fix rtr ide :: pyval and ide_int :: int
  show "never_invalid
     (bind (if ide_int = 1
            then bind (set_data ''srr'' rtr) (\<lambda>_. bind (read_bits_as_int 18) (\<lambda>ext.
                 bind (set_data ''extended_can_id'' ext) (\<lambda>_. bind (read_bits_as_int 1) (\<lambda>rtr2.
                 set_data ''rtr'' rtr2))))
            else bind (set_data ''srr'' PyNone) (\<lambda>_. set_data ''extended_can_id'' PyNone))
       (\<lambda>_. decode_tail s))"
    by (intro never_invalid_bind_any never_invalid_if never_invalid_decode_tail
        never_invalid_read never_invalid_set)
qed

lemma never_invalid_priv: "never_invalid priv_decode_can_message"
  unfolding priv_unfold
  by (rule never_invalid_bind_any, simp add: never_invalid_def)
     (intro never_invalid_steps never_invalid_decode_after_id)

lemma init_not_invalid: "CANDecoder_init m \<noteq> Inl (InvalidBitException v f)"
  by (cases m) (auto simp: CANDecoder_init_def split: option.splits if_splits)

lemma never_invalid_decode_can_message: "never_invalid decode_can_message"
  unfolding decode_can_message_def
  by (rule never_invalid_bind_any [OF never_invalid_priv])
     (auto simp: never_invalid_def return_def raise_def split: option.splits if_splits)

text \<open>
  Claim C3: a decoded start-of-frame bit of 1, a decoded CRC delimiter of 0 and a
  decoded ACK delimiter of 0 each end the decoding with an invalid-bit error that names
  the field and the value.

  The code has the three checks, each written \<^verbatim>\<open>if self.data[...] == "0"\<close>, and says of
  the delimiters that they are always 1. What it compares with the string is the
  integer that \<^verbatim>\<open>read_bits_as_int\<close> returned (or \<^verbatim>\<open>None\<close>), and an integer never equals a
  string. So no input at all ends with \<^verbatim>\<open>InvalidBitException\<close>, from either entry point,
  and the frame with start of frame 1, identifier 2, one data byte 9, CRC delimiter 0
  and ACK delimiter 0 is decoded with these values stored.
\<close>

theorem fixed_bit_checks_never_fire:
  "decode_full m \<noteq> Inl (InvalidBitException v f) \<and>
   decode m \<noteq> Inl (InvalidBitException v f) \<and>
   decode_full (MsgStr ''1000000000100000001000010010000000000000000001111111111'') =
     Inr (AccelerationSensor,
          [(''sof'', PyInt 1), (''can_id'', PyInt 2), (''rtr'', PyInt 0),
           (''ide'', PyInt 0), (''srr'', PyNone), (''extended_can_id'', PyNone),
           (''r0'', PyInt 0), (''data_length_code'', PyInt 1),
           (''data'', PyInt 9), (''crc_segment'', PyInt 0),
           (''crc_delimiter'', PyInt 0), (''ack_bit'', PyInt 0),
           (''ack_delimiter'', PyInt 0), (''end_of_frame'', PyInt 127),
           (''interframe_space'', PyInt 7)]) \<and>
   decode (MsgStr ''1000000000100000001000010010000000000000000001111111111'') =
     Inr (Some AccelerationSensor, PyInt 9)"
proof -
  have 1: "decode_full m \<noteq> Inl (InvalidBitException v f)"
  proof (cases "CANDecoder_init m")
    case (Inl e)
    with init_not_invalid [of m v f] show ?thesis by (simp add: decode_full_def)
  next
    case (Inr d)
    from never_invalid_priv have "fst (priv_decode_can_message d) \<noteq> Inl (InvalidBitException v f)"
      unfolding never_invalid_def by blast
    with Inr show ?thesis by (simp add: decode_full_def decode_can_message_full_dict_def)
  qed
  have 2: "decode m \<noteq> Inl (InvalidBitException v f)"
  proof (cases "CANDecoder_init m")
    case (Inl e)
    with init_not_invalid [of m v f] show ?thesis by (simp add: decode_def)
  next
    case (Inr d)
    from never_invalid_decode_can_message
    have "fst (decode_can_message d) \<noteq> Inl (InvalidBitException v f)"
      unfolding never_invalid_def by blast
    with Inr show ?thesis by (simp add: decode_def)
  qed
  let ?f = "''1000000000100000001000010010000000000000000001111111111''"
  have i: "CANDecoder_init (MsgStr ?f) = Inr \<lparr>message = ''0b'' @ ?f, data = []\<rparr>"
    by (simp add: init_binary_one)
  have 3: "decode_full (MsgStr ?f) =
     Inr (AccelerationSensor,
          [(''sof'', PyInt 1), (''can_id'', PyInt 2), (''rtr'', PyInt 0),
           (''ide'', PyInt 0), (''srr'', PyNone), (''extended_can_id'', PyNone),
           (''r0'', PyInt 0), (''data_length_code'', PyInt 1),
           (''data'', PyInt 9), (''crc_segment'', PyInt 0),
           (''crc_delimiter'', PyInt 0), (''ack_bit'', PyInt 0),
           (''ack_delimiter'', PyInt 0), (''end_of_frame'', PyInt 127),
           (''interframe_space'', PyInt 7)])"
    unfolding decode_full_def decode_can_message_full_dict_def i
    by (simp add: literal_reads)
  have 4: "decode (MsgStr ?f) = Inr (Some AccelerationSensor, PyInt 9)"
    unfolding decode_def decode_can_message_def i
    by (simp add: literal_reads)
  from 1 2 3 4 show ?thesis by (intro conjI)
qed

end
